theory Spec2Isabelle
  imports Main
begin

section \<open>Data model of \<^verbatim>\<open>main.py\<close>\<close>

text \<open>
  A game is the JSON object the catalog returns for it: a dictionary from keys to values.
  Only the key \<^verbatim>\<open>title\<close> is ever compared, and its value is a string, so the dictionary is
  an association list of strings. \<^verbatim>\<open>g.get(k)\<close> is the lookup, with \<open>None\<close> for a key
  that is absent, as in Python.
\<close>

type_synonym game = "(string \<times> string) list"

definition get :: "game \<Rightarrow> string \<Rightarrow> string option" where
  "get g k = map_of g k"

text \<open>The set comprehension \<^verbatim>\<open>{g.get("title") for g in games}\<close>.\<close>

definition title_set :: "game list \<Rightarrow> string option set" where
  "title_set games = set (map (\<lambda>g. get g ''title'') games)"

text \<open>
  The decoded body of a catalog response is a JSON object. Of its keys the code reads
  \<^verbatim>\<open>currentGames\<close> and \<^verbatim>\<open>nextGames\<close>, each an array of games where it is present;
  \<open>other_keys\<close> says whether the object has any further key. A body that decodes to
  another kind of JSON value, or whose arrays hold something else than games, is not in
  this type.
\<close>

record json_object =
  currentGames_key :: "game list option"
  nextGames_key :: "game list option"
  other_keys :: bool

text \<open>The test \<^verbatim>\<open>not data\<close> on a dictionary: it holds of the dictionary without a key.\<close>

definition is_empty_object :: "json_object \<Rightarrow> bool" where
  "is_empty_object data =
     (currentGames_key data = None \<and> nextGames_key data = None \<and> \<not> other_keys data)"

text \<open>\<^verbatim>\<open>data.get(key, dflt)\<close>, on what the dictionary holds under the key.\<close>

definition get_or :: "'a option \<Rightarrow> 'a \<Rightarrow> 'a" where
  "get_or v dflt = (case v of None \<Rightarrow> dflt | Some x \<Rightarrow> x)"

text \<open>
  A snapshot is the pair of lists that lines 205 and 206 read from the data, a missing
  array being read as the empty list; \<open>catalog\<close> is the object that has exactly the two
  arrays of a snapshot.
\<close>

record snapshot =
  currentGames :: "game list"
  nextGames :: "game list"

definition snapshot_of :: "json_object \<Rightarrow> snapshot" where
  "snapshot_of data =
     \<lparr>currentGames = get_or (currentGames_key data) [],
      nextGames = get_or (nextGames_key data) []\<rparr>"

definition catalog :: "snapshot \<Rightarrow> json_object" where
  "catalog d =
     \<lparr>currentGames_key = Some (currentGames d), nextGames_key = Some (nextGames d),
      other_keys = False\<rparr>"

text \<open>
  What the network does on one request: the session raises (transport error or the ten
  second timeout), or a response arrives with a status and a body; the body is \<open>None\<close>
  when \<^verbatim>\<open>resp.json()\<close> raises on it.
\<close>

datatype response = TransportError | Timeout | HttpResponse nat "json_object option"

text \<open>
  Datetimes are local wall-clock instants counted in microseconds (the resolution of
  Python's \<^verbatim>\<open>datetime\<close>), dates are day numbers. \<^verbatim>\<open>str(now.date())\<close> is injective on
  dates, so the stored string \<^verbatim>\<open>last_daily_run\<close> is modelled by the day number itself.
\<close>

type_synonym datetime = int
type_synonym date = int

definition date_of :: "datetime \<Rightarrow> date" where
  "date_of t = t div 86400000000"

text \<open>\<^verbatim>\<open>timedelta(minutes=n)\<close>.\<close>

definition timedelta_minutes :: "int \<Rightarrow> int" where
  "timedelta_minutes n = n * 60000000"

text \<open>\<^verbatim>\<open>now.replace(hour=17, minute=1, second=0, microsecond=0)\<close>.\<close>

definition target_time_of :: "datetime \<Rightarrow> datetime" where
  "target_time_of t = date_of t * 86400000000 + (17 * 3600 + 1 * 60) * 1000000"

text \<open>The two JSON files. \<open>None\<close> stands for a file that is missing or does not decode.\<close>

record api_calls_json =
  count :: int
  month :: string

record posted_json =
  current :: "game list"
  upcoming :: "game list"
  last_daily_run_json :: "date option"

record channel =
  channel_name :: string
  channel_id :: nat

record guild =
  guild_name :: string
  text_channels :: "channel list"

text \<open>
  The module's globals and the two files, threaded through every function that reads or
  writes them. \<^verbatim>\<open>pending_confirmations\<close> is the dictionary from a user's mention to the
  expiry of the pending confirmation.
\<close>

record state =
  posted_games :: "game list"
  posted_upcoming :: "game list"
  last_daily_run :: "date option"
  pending_confirmations :: "string \<rightharpoonup> datetime"
  posted_file :: "posted_json option"
  api_call_log :: "api_calls_json option"

text \<open>
  What one invocation finds outside the process: the clock (\<^verbatim>\<open>datetime.now(CET)\<close> and its
  \<^verbatim>\<open>strftime("%Y-%m")\<close>), the behaviour of the network, and the guilds the bot is in.
  An invocation reads the clock once.
\<close>

record env =
  now :: datetime
  current_month :: string
  net :: response
  guilds :: "guild list"

section \<open>Start-up\<close>

text \<open>
  The module-level load of \<^verbatim>\<open>posted_games.json\<close>: empty lists and no date when the file
  is missing or does not decode.
\<close>

definition load_posted :: "posted_json option \<Rightarrow> api_calls_json option \<Rightarrow> state" where
  "load_posted f a =
     (case f of
        None \<Rightarrow>
          \<lparr>posted_games = [], posted_upcoming = [], last_daily_run = None,
           pending_confirmations = Map.empty, posted_file = f, api_call_log = a\<rparr>
      | Some d \<Rightarrow>
          \<lparr>posted_games = current d, posted_upcoming = upcoming d,
           last_daily_run = last_daily_run_json d,
           pending_confirmations = Map.empty, posted_file = f, api_call_log = a\<rparr>)"

section \<open>The API call counter\<close>

definition get_api_call_count :: "api_calls_json option \<Rightarrow> int \<times> string" where
  "get_api_call_count f =
     (case f of None \<Rightarrow> (0, '''') | Some d \<Rightarrow> (count d, month d))"

definition increment_api_calls ::
  "string \<Rightarrow> api_calls_json option \<Rightarrow> int \<times> api_calls_json option" where
  "increment_api_calls this_month f =
     (let (c, last_month) = get_api_call_count f;
          c = (if last_month \<noteq> this_month then 0 else c);
          c = c + 1
      in (c, Some \<lparr>count = c, month = this_month\<rparr>))"

section \<open>Fetching\<close>

text \<open>
  \<^verbatim>\<open>fetch_games\<close>: the counter is written first, then the request is made; every
  exception and every status other than 200 gives \<^verbatim>\<open>None\<close>.
\<close>

definition fetch_games :: "env \<Rightarrow> state \<Rightarrow> json_object option \<times> state" where
  "fetch_games e s =
     (let (call_count, f) = increment_api_calls (current_month e) (api_call_log s);
          s1 = s\<lparr>api_call_log := f\<rparr>
      in case net e of
           TransportError \<Rightarrow> (None, s1)
         | Timeout \<Rightarrow> (None, s1)
         | HttpResponse status body \<Rightarrow>
             if status \<noteq> 200 then (None, s1) else (body, s1))"

definition get_free_game_channels :: "guild list \<Rightarrow> channel list" where
  "get_free_game_channels gs =
     concat (map (\<lambda>g. filter (\<lambda>c. channel_name c = ''free-games'') (text_channels g)) gs)"

section \<open>Reconciliation\<close>

definition are_games_same :: "game list \<Rightarrow> game list \<Rightarrow> bool" where
  "are_games_same new_games old_games = (title_set new_games = title_set old_games)"

text \<open>
  \<^verbatim>\<open>save_posted\<close> writes the file; the list it writes as \<^verbatim>\<open>upcoming\<close> is filtered once
  more against the current titles, the list in memory is left as it is.
\<close>

definition save_posted :: "state \<Rightarrow> state" where
  "save_posted s =
     (let current_titles = title_set (posted_games s);
          clean_upcoming =
            filter (\<lambda>g. get g ''title'' \<notin> current_titles) (posted_upcoming s)
      in s\<lparr>posted_file :=
             Some \<lparr>current = posted_games s, upcoming = clean_upcoming,
                   last_daily_run_json = last_daily_run s\<rparr>\<rparr>)"

text \<open>
  \<^verbatim>\<open>run_check\<close> returns a boolean. The outcome below records which return statement was
  reached and, on the last one, the two lists handed to \<^verbatim>\<open>make_embeds\<close>;
  \<open>returned\<close> is the boolean the caller sees. The test \<^verbatim>\<open>if not data\<close> of line 192
  holds of \<^verbatim>\<open>None\<close> and of the empty object.
\<close>

datatype outcome =
    FetchFailed
  | NoChannels
  | Unchanged bool
  | Changed "game list" "game list"

fun returned :: "outcome \<Rightarrow> bool" where
  "returned FetchFailed = False"
| "returned NoChannels = False"
| "returned (Unchanged armed) = True"
| "returned (Changed announced_current announced_upcoming) = True"

text \<open>
  Line 212: \<^verbatim>\<open>pending_confirmations[ctx_mention] = datetime.now(CET) + timedelta(minutes=1)\<close>.
\<close>

definition arm :: "string \<Rightarrow> datetime \<Rightarrow> (string \<rightharpoonup> datetime) \<Rightarrow> (string \<rightharpoonup> datetime)" where
  "arm mention t pc = pc(mention \<mapsto> t + timedelta_minutes 1)"

definition run_check ::
  "string option \<Rightarrow> bool \<Rightarrow> channel option \<Rightarrow> env \<Rightarrow> state \<Rightarrow> outcome \<times> state" where
  "run_check ctx_mention force interaction_channel e s =
     (let (data, s1) = fetch_games e s in
      case data of
        None \<Rightarrow> (FetchFailed, s1)
      | Some d \<Rightarrow>
          if is_empty_object d then (FetchFailed, s1)
          else
          let channels =
                (case interaction_channel of
                   Some c \<Rightarrow> [c]
                 | None \<Rightarrow> get_free_game_channels (guilds e))
          in if channels = [] then (NoChannels, s1)
             else
               let current_games = get_or (currentGames_key d) [];
                   next_games = get_or (nextGames_key d) [];
                   current_titles = title_set current_games
               in if are_games_same current_games (posted_games s1) \<and> \<not> force then
                    (case ctx_mention of
                       None \<Rightarrow> (Unchanged False, s1)
                     | Some m \<Rightarrow>
                         if m \<noteq> [] \<and> interaction_channel \<noteq> None then
                           (Unchanged True,
                            s1\<lparr>pending_confirmations :=
                                 arm m (now e) (pending_confirmations s1)\<rparr>)
                         else (Unchanged False, s1))
                  else
                    let kept =
                          filter (\<lambda>g. get g ''title'' \<notin> current_titles) (posted_upcoming s1);
                        new_upcoming =
                          filter
                            (\<lambda>g. get g ''title'' \<notin> current_titles \<and>
                                 get g ''title'' \<notin> set (map (\<lambda>u. get u ''title'') kept))
                            next_games;
                        s2 = s1\<lparr>posted_games := current_games,
                                posted_upcoming := kept @ new_upcoming,
                                last_daily_run := Some (date_of (now e))\<rparr>
                    in (Changed current_games new_upcoming, save_posted s2))"

section \<open>The confirmation command\<close>

datatype confirm_reply = Redisplayed "game list" | NoPending

definition confirm_slash :: "string \<Rightarrow> datetime \<Rightarrow> state \<Rightarrow> confirm_reply \<times> state" where
  "confirm_slash mention t s =
     (case pending_confirmations s mention of
        None \<Rightarrow> (NoPending, s)
      | Some expiry \<Rightarrow>
          if t \<le> expiry then
            (Redisplayed (posted_games s),
             s\<lparr>pending_confirmations := (pending_confirmations s)(mention := None)\<rparr>)
          else (NoPending, s))"

section \<open>The daily task\<close>

text \<open>
  One run of the body of \<^verbatim>\<open>daily_check\<close>. The value beside the state is the line it
  prints: nothing, the next-check line, or the will-retry line.
\<close>

datatype tick = NotDue | RanOk | RanFailed

definition daily_check :: "env \<Rightarrow> state \<Rightarrow> tick \<times> state" where
  "daily_check e s =
     (let today_str = date_of (now e);
          target_time = target_time_of (now e)
      in if now e \<ge> target_time \<and> last_daily_run s \<noteq> Some today_str then
           (let (result, s1) = run_check None False None e s
            in if returned result then (RanOk, s1) else (RanFailed, s1))
         else (NotDue, s))"

text \<open>The loop of \<^verbatim>\<open>tasks.loop\<close>: one environment for each tick, in order.\<close>

fun run_ticks :: "env list \<Rightarrow> state \<Rightarrow> tick list \<times> state" where
  "run_ticks [] s = ([], s)"
| "run_ticks (e # es) s =
     (let (t, s1) = daily_check e s;
          (ts, s2) = run_ticks es s1
      in (t # ts, s2))"

section \<open>Names for the local values of \<^verbatim>\<open>run_check\<close>\<close>

text \<open>
  The list \<^verbatim>\<open>channels\<close> (lines 196 to 199), the stored upcoming list after line 219
  and the list \<^verbatim>\<open>new_upcoming\<close> of line 222, as functions of the fetched data and the
  state before the call.
\<close>

definition channels_of :: "channel option \<Rightarrow> env \<Rightarrow> channel list" where
  "channels_of ic e =
     (case ic of Some c \<Rightarrow> [c] | None \<Rightarrow> get_free_game_channels (guilds e))"

definition kept_upcoming :: "snapshot \<Rightarrow> state \<Rightarrow> game list" where
  "kept_upcoming d s =
     filter (\<lambda>g. get g ''title'' \<notin> title_set (currentGames d)) (posted_upcoming s)"

definition new_upcoming_of :: "snapshot \<Rightarrow> state \<Rightarrow> game list" where
  "new_upcoming_of d s =
     filter (\<lambda>g. get g ''title'' \<notin> title_set (currentGames d) \<and>
                 get g ''title'' \<notin> title_set (kept_upcoming d s))
       (nextGames d)"

text \<open>
  A tick of the daily task on the day \<open>today\<close>, at or after 17:01, at which the catalog
  answers with an object that is not empty and no guild has a channel named
  \<^verbatim>\<open>free-games\<close>.
\<close>

definition no_channel_tick :: "date \<Rightarrow> env \<Rightarrow> bool" where
  "no_channel_tick today e =
     (date_of (now e) = today \<and> target_time_of (now e) \<le> now e \<and>
      (case net e of
         HttpResponse status body \<Rightarrow>
           status = 200 \<and> (case body of None \<Rightarrow> False | Some d \<Rightarrow> \<not> is_empty_object d)
       | _ \<Rightarrow> False) \<and>
      get_free_game_channels (guilds e) = [])"

section \<open>Concrete inputs\<close>

definition alpha :: game where
  "alpha = [(''title'', ''Alpha'')]"

definition beta :: game where
  "beta = [(''title'', ''Beta'')]"

definition alpha_reworded :: game where
  "alpha_reworded = [(''title'', ''Alpha''), (''description'', ''new text'')]"

definition untitled_one :: game where
  "untitled_one = [(''description'', ''first'')]"

definition untitled_two :: game where
  "untitled_two = [(''description'', ''second'')]"

definition snapshot_A :: snapshot where
  "snapshot_A = \<lparr>currentGames = [alpha], nextGames = [beta]\<rparr>"

definition snapshot_B :: snapshot where
  "snapshot_B = \<lparr>currentGames = [beta], nextGames = [alpha]\<rparr>"

definition snapshot_A_reworded :: snapshot where
  "snapshot_A_reworded = \<lparr>currentGames = [alpha_reworded], nextGames = [beta]\<rparr>"

definition snapshot_untitled :: snapshot where
  "snapshot_untitled = \<lparr>currentGames = [untitled_one], nextGames = [untitled_two]\<rparr>"

text \<open>A body without the two arrays: an object with a message only.\<close>

definition message_only :: json_object where
  "message_only = \<lparr>currentGames_key = None, nextGames_key = None, other_keys = True\<rparr>"

definition empty_object :: json_object where
  "empty_object = \<lparr>currentGames_key = None, nextGames_key = None, other_keys = False\<rparr>"

definition free_games_channel :: channel where
  "free_games_channel = \<lparr>channel_name = ''free-games'', channel_id = 1\<rparr>"

definition home_guild :: guild where
  "home_guild = \<lparr>guild_name = ''home'', text_channels = [free_games_channel]\<rparr>"

definition bare_guild :: guild where
  "bare_guild =
     \<lparr>guild_name = ''bare'', text_channels = [\<lparr>channel_name = ''general'', channel_id = 2\<rparr>]\<rparr>"

definition env_at :: "datetime \<Rightarrow> response \<Rightarrow> guild list \<Rightarrow> env" where
  "env_at t r gs = \<lparr>now = t, current_month = ''2024-10'', net = r, guilds = gs\<rparr>"

text \<open>Day 20000 at 10:00, at 17:01 and at 17:16; day 20001 at 17:01.\<close>

definition morning :: datetime where
  "morning = 20000 * 86400000000 + 36000000000"

definition first_tick :: datetime where
  "first_tick = 20000 * 86400000000 + 61260000000"

definition second_tick :: datetime where
  "second_tick = 20000 * 86400000000 + 62160000000"

definition next_day_tick :: datetime where
  "next_day_tick = 20001 * 86400000000 + 61260000000"

definition state_after_A :: state where
  "state_after_A =
     \<lparr>posted_games = [alpha], posted_upcoming = [beta], last_daily_run = Some 20000,
      pending_confirmations = Map.empty,
      posted_file = Some \<lparr>current = [alpha], upcoming = [beta],
                          last_daily_run_json = Some 20000\<rparr>,
      api_call_log = Some \<lparr>count = 1, month = ''2024-10''\<rparr>\<rparr>"

definition state_after_B :: state where
  "state_after_B =
     \<lparr>posted_games = [beta], posted_upcoming = [alpha], last_daily_run = Some 20001,
      pending_confirmations = Map.empty,
      posted_file = Some \<lparr>current = [beta], upcoming = [alpha],
                          last_daily_run_json = Some 20001\<rparr>,
      api_call_log = Some \<lparr>count = 2, month = ''2024-10''\<rparr>\<rparr>"

definition state_yesterday :: state where
  "state_yesterday =
     \<lparr>posted_games = [alpha], posted_upcoming = [beta], last_daily_run = Some 19999,
      pending_confirmations = Map.empty,
      posted_file = Some \<lparr>current = [alpha], upcoming = [beta],
                          last_daily_run_json = Some 19999\<rparr>,
      api_call_log = Some \<lparr>count = 3, month = ''2024-10''\<rparr>\<rparr>"

text \<open>The games of snapshot A in memory, and no state file.\<close>

definition state_unsaved :: state where
  "state_unsaved =
     \<lparr>posted_games = [alpha], posted_upcoming = [beta], last_daily_run = None,
      pending_confirmations = Map.empty,
      posted_file = None,
      api_call_log = None\<rparr>"

text \<open>A confirmation armed at instant 0 for the user \<^verbatim>\<open><@42>\<close>: it expires at 60 s.\<close>

definition state_armed :: state where
  "state_armed =
     \<lparr>posted_games = [alpha], posted_upcoming = [beta], last_daily_run = Some 20000,
      pending_confirmations = arm ''<@42>'' 0 Map.empty,
      posted_file = Some \<lparr>current = [alpha], upcoming = [beta],
                          last_daily_run_json = Some 20000\<rparr>,
      api_call_log = Some \<lparr>count = 1, month = ''2024-10''\<rparr>\<rparr>"

definition state_untitled_upcoming :: state where
  "state_untitled_upcoming =
     \<lparr>posted_games = [alpha], posted_upcoming = [untitled_two], last_daily_run = Some 19999,
      pending_confirmations = Map.empty,
      posted_file = Some \<lparr>current = [alpha], upcoming = [untitled_two],
                          last_daily_run_json = Some 19999\<rparr>,
      api_call_log = Some \<lparr>count = 3, month = ''2024-10''\<rparr>\<rparr>"

definition state_untitled_current :: state where
  "state_untitled_current =
     \<lparr>posted_games = [untitled_two], posted_upcoming = [], last_daily_run = Some 19999,
      pending_confirmations = Map.empty,
      posted_file = Some \<lparr>current = [untitled_two], upcoming = [],
                          last_daily_run_json = Some 19999\<rparr>,
      api_call_log = Some \<lparr>count = 3, month = ''2024-10''\<rparr>\<rparr>"

lemmas example_defs =
  alpha_def beta_def alpha_reworded_def untitled_one_def untitled_two_def
  snapshot_A_def snapshot_B_def snapshot_A_reworded_def snapshot_untitled_def
  free_games_channel_def home_guild_def bare_guild_def env_at_def
  morning_def first_tick_def second_tick_def next_day_tick_def
  state_after_A_def state_after_B_def state_yesterday_def state_armed_def
  state_untitled_upcoming_def state_untitled_current_def state_unsaved_def
  message_only_def empty_object_def

lemmas code_defs =
  run_check_def fetch_games_def increment_api_calls_def get_api_call_count_def
  get_free_game_channels_def are_games_same_def title_set_def get_def save_posted_def
  date_of_def target_time_of_def timedelta_minutes_def load_posted_def arm_def
  daily_check_def confirm_slash_def channels_of_def no_channel_tick_def
  is_empty_object_def get_or_def snapshot_of_def catalog_def

section \<open>The branches of \<^verbatim>\<open>fetch_games\<close> and \<^verbatim>\<open>run_check\<close>\<close>

lemma fetch_games_snd:
  "snd (fetch_games e s) =
     s\<lparr>api_call_log := snd (increment_api_calls (current_month e) (api_call_log s))\<rparr>"
  by (simp add: fetch_games_def Let_def split: prod.splits response.splits)

lemma fetch_games_fst:
  "fst (fetch_games e s) =
     (case net e of
        TransportError \<Rightarrow> None
      | Timeout \<Rightarrow> None
      | HttpResponse status body \<Rightarrow> if status \<noteq> 200 then None else body)"
  by (simp add: fetch_games_def Let_def split: prod.splits response.splits)

lemma fetch_games_ok:
  "net e = HttpResponse 200 (Some d) \<Longrightarrow> fst (fetch_games e s) = Some d"
  by (simp add: fetch_games_fst)

lemma fetch_games_frame:
  "posted_games (snd (fetch_games e s)) = posted_games s"
  "posted_upcoming (snd (fetch_games e s)) = posted_upcoming s"
  "last_daily_run (snd (fetch_games e s)) = last_daily_run s"
  "pending_confirmations (snd (fetch_games e s)) = pending_confirmations s"
  "posted_file (snd (fetch_games e s)) = posted_file s"
  by (simp_all add: fetch_games_snd)

lemma save_posted_fields:
  "posted_games (save_posted s) = posted_games s"
  "posted_upcoming (save_posted s) = posted_upcoming s"
  "last_daily_run (save_posted s) = last_daily_run s"
  "pending_confirmations (save_posted s) = pending_confirmations s"
  "api_call_log (save_posted s) = api_call_log s"
  by (simp_all add: save_posted_def Let_def)

lemma save_posted_file:
  "posted_file (save_posted s) =
     Some \<lparr>current = posted_games s,
           upcoming =
             filter (\<lambda>g. get g ''title'' \<notin> title_set (posted_games s)) (posted_upcoming s),
           last_daily_run_json = last_daily_run s\<rparr>"
  by (simp add: save_posted_def Let_def)

lemma run_check_fetch_failed:
  assumes "fst (fetch_games e s) = None"
  shows "run_check cm force ic e s = (FetchFailed, snd (fetch_games e s))"
proof (cases "fetch_games e s")
  case (Pair r s1)
  with assms show ?thesis by (simp add: run_check_def)
qed

lemma run_check_empty_object:
  assumes "fst (fetch_games e s) = Some d" and "is_empty_object d"
  shows "run_check cm force ic e s = (FetchFailed, snd (fetch_games e s))"
proof (cases "fetch_games e s")
  case (Pair r s1)
  with assms show ?thesis by (simp add: run_check_def)
qed

lemma run_check_no_channels:
  assumes "fst (fetch_games e s) = Some d" and "\<not> is_empty_object d"
    and "channels_of ic e = []"
  shows "run_check cm force ic e s = (NoChannels, snd (fetch_games e s))"
proof (cases "fetch_games e s")
  case (Pair r s1)
  with assms show ?thesis by (simp add: run_check_def channels_of_def)
qed

lemma run_check_unchanged:
  assumes "fst (fetch_games e s) = Some d" and "\<not> is_empty_object d"
    and "channels_of ic e \<noteq> []"
    and "are_games_same (currentGames (snapshot_of d)) (posted_games s)" and "\<not> force"
  shows "run_check cm force ic e s =
     (case cm of
        None \<Rightarrow> (Unchanged False, snd (fetch_games e s))
      | Some m \<Rightarrow>
          if m \<noteq> [] \<and> ic \<noteq> None then
            (Unchanged True,
             (snd (fetch_games e s))\<lparr>pending_confirmations :=
                arm m (now e) (pending_confirmations s)\<rparr>)
          else (Unchanged False, snd (fetch_games e s)))"
proof (cases "fetch_games e s")
  case (Pair r s1)
  moreover from Pair have "posted_games s1 = posted_games s"
    "pending_confirmations s1 = pending_confirmations s"
    using fetch_games_frame [of e s] by simp_all
  ultimately show ?thesis using assms
    by (simp add: run_check_def channels_of_def snapshot_of_def split: option.splits)
qed

lemma run_check_changed:
  assumes "fst (fetch_games e s) = Some d" and "\<not> is_empty_object d"
    and "channels_of ic e \<noteq> []"
    and "\<not> are_games_same (currentGames (snapshot_of d)) (posted_games s) \<or> force"
  shows "run_check cm force ic e s =
     (Changed (currentGames (snapshot_of d)) (new_upcoming_of (snapshot_of d) s),
      save_posted ((snd (fetch_games e s))
        \<lparr>posted_games := currentGames (snapshot_of d),
         posted_upcoming :=
           kept_upcoming (snapshot_of d) s @ new_upcoming_of (snapshot_of d) s,
         last_daily_run := Some (date_of (now e))\<rparr>))"
proof (cases "fetch_games e s")
  case (Pair r s1)
  moreover from Pair have "posted_games s1 = posted_games s"
    "posted_upcoming s1 = posted_upcoming s"
    using fetch_games_frame [of e s] by simp_all
  ultimately show ?thesis using assms
    by (auto simp add: run_check_def channels_of_def kept_upcoming_def new_upcoming_of_def
        snapshot_of_def title_set_def Let_def)
qed

text \<open>A call returns from the last return statement exactly when these conditions hold.\<close>

lemma run_check_Changed_iff:
  "(run_check cm force ic e s = (Changed ac au, s')) =
   (\<exists>d. fst (fetch_games e s) = Some d \<and> \<not> is_empty_object d \<and>
        channels_of ic e \<noteq> [] \<and>
        (\<not> are_games_same (currentGames (snapshot_of d)) (posted_games s) \<or> force) \<and>
        ac = currentGames (snapshot_of d) \<and> au = new_upcoming_of (snapshot_of d) s \<and>
        s' = save_posted ((snd (fetch_games e s))
               \<lparr>posted_games := currentGames (snapshot_of d),
                posted_upcoming :=
                  kept_upcoming (snapshot_of d) s @ new_upcoming_of (snapshot_of d) s,
                last_daily_run := Some (date_of (now e))\<rparr>))"
proof (cases "fst (fetch_games e s)")
  case None
  then show ?thesis by (simp add: run_check_fetch_failed)
next
  case (Some d)
  show ?thesis
  proof (cases "is_empty_object d")
    case True
    with Some show ?thesis by (simp add: run_check_empty_object)
  next
    case nonempty: False
    show ?thesis
    proof (cases "channels_of ic e = []")
      case True
      with Some nonempty show ?thesis by (simp add: run_check_no_channels)
    next
      case False
      show ?thesis
      proof (cases "are_games_same (currentGames (snapshot_of d)) (posted_games s) \<and> \<not> force")
        case True
        with Some nonempty False show ?thesis
          by (simp add: run_check_unchanged split: option.splits)
      next
        case False
        with Some nonempty \<open>channels_of ic e \<noteq> []\<close> show ?thesis
          by (auto simp add: run_check_changed)
      qed
    qed
  qed
qed

lemma run_check_Changed_posted_games:
  "run_check cm force ic e s = (Changed ac au, s') \<Longrightarrow>
   fst (fetch_games e s) = Some d \<Longrightarrow> posted_games s' = currentGames (snapshot_of d)"
  by (auto simp add: run_check_Changed_iff save_posted_fields)

lemma run_check_api_call_log:
  "api_call_log (snd (run_check cm force ic e s)) = api_call_log (snd (fetch_games e s))"
proof (cases "fetch_games e s")
  case (Pair r s1)
  then show ?thesis
    by (simp add: run_check_def save_posted_def Let_def split: option.splits)
qed

lemma snapshot_of_catalog: "snapshot_of (catalog d) = d"
  by (simp add: snapshot_of_def catalog_def get_or_def)

lemma catalog_not_empty: "\<not> is_empty_object (catalog d)"
  by (simp add: is_empty_object_def catalog_def)

section \<open>Titles of the filtered lists\<close>

lemma title_set_append: "title_set (xs @ ys) = title_set xs \<union> title_set ys"
  by (simp add: title_set_def)

lemma title_set_filter_disjoint:
  "T \<inter> title_set (filter (\<lambda>g. get g ''title'' \<notin> T) xs) = {}"
  by (auto simp add: title_set_def)

lemma title_set_filter_apart:
  "T \<inter> title_set (filter (\<lambda>g. get g ''title'' \<notin> T \<and> Q g) xs) = {}"
  by (auto simp add: title_set_def)

lemma kept_upcoming_disjoint:
  "title_set (currentGames d) \<inter> title_set (kept_upcoming d s) = {}"
  unfolding kept_upcoming_def by (rule title_set_filter_disjoint)

lemma new_upcoming_disjoint:
  "title_set (currentGames d) \<inter> title_set (new_upcoming_of d s) = {}"
  unfolding new_upcoming_of_def by (rule title_set_filter_apart)

lemma kept_upcoming_idem:
  assumes "posted_upcoming s1 = kept_upcoming d s @ new_upcoming_of d s"
  shows "kept_upcoming d s1 = kept_upcoming d s @ new_upcoming_of d s"
  unfolding kept_upcoming_def [of d s1] assms
  by (auto simp add: kept_upcoming_def new_upcoming_of_def intro!: filter_cong)

lemma new_upcoming_second_empty:
  assumes "posted_upcoming s1 = kept_upcoming d s @ new_upcoming_of d s"
  shows "new_upcoming_of d s1 = []"
proof -
  have "\<And>g. g \<in> set (nextGames d) \<Longrightarrow> get g ''title'' \<notin> title_set (currentGames d) \<Longrightarrow>
        get g ''title'' \<in> title_set (kept_upcoming d s @ new_upcoming_of d s)"
  proof -
    fix g assume g: "g \<in> set (nextGames d)" "get g ''title'' \<notin> title_set (currentGames d)"
    show "get g ''title'' \<in> title_set (kept_upcoming d s @ new_upcoming_of d s)"
    proof (cases "get g ''title'' \<in> title_set (kept_upcoming d s)")
      case True
      then show ?thesis by (simp add: title_set_append)
    next
      case False
      with g have "g \<in> set (new_upcoming_of d s)" by (simp add: new_upcoming_of_def)
      then have "get g ''title'' \<in> title_set (new_upcoming_of d s)"
        by (simp add: title_set_def)
      then show ?thesis by (simp add: title_set_append)
    qed
  qed
  then show ?thesis
    unfolding new_upcoming_of_def [of d s1] kept_upcoming_idem [OF assms]
    by (auto simp add: filter_empty_conv)
qed

section \<open>The daily task, branch by branch\<close>

lemma daily_check_not_due:
  "last_daily_run s = Some (date_of (now e)) \<Longrightarrow> daily_check e s = (NotDue, s)"
  by (simp add: daily_check_def)

lemma daily_check_changed_marks_today:
  assumes "target_time_of (now e) \<le> now e" and "last_daily_run s \<noteq> Some (date_of (now e))"
    and "run_check None False None e s = (Changed ac au, s')"
  shows "daily_check e s = (RanOk, s') \<and> last_daily_run s' = Some (date_of (now e))"
proof -
  from assms(3) have "last_daily_run s' = Some (date_of (now e))"
    by (auto simp add: run_check_Changed_iff save_posted_fields)
  with assms show ?thesis by (simp add: daily_check_def)
qed

lemma daily_check_unchanged_leaves_marker:
  assumes "target_time_of (now e) \<le> now e" and "last_daily_run s \<noteq> Some (date_of (now e))"
    and "net e = HttpResponse 200 (Some d)" and "\<not> is_empty_object d"
    and "get_free_game_channels (guilds e) \<noteq> []"
    and "are_games_same (currentGames (snapshot_of d)) (posted_games s)"
  shows "daily_check e s =
     (RanOk,
      s\<lparr>api_call_log := snd (increment_api_calls (current_month e) (api_call_log s))\<rparr>)"
proof -
  have "fst (fetch_games e s) = Some d" using assms(3) by (rule fetch_games_ok)
  moreover have "channels_of None e \<noteq> []" using assms(5) by (simp add: channels_of_def)
  ultimately have "run_check None False None e s = (Unchanged False, snd (fetch_games e s))"
    using assms(4,6) by (simp add: run_check_unchanged)
  with assms(1,2) show ?thesis by (simp add: daily_check_def fetch_games_snd)
qed

lemma daily_check_no_channels:
  assumes "no_channel_tick today e" and "last_daily_run s \<noteq> Some today"
  shows "daily_check e s =
     (RanFailed,
      s\<lparr>api_call_log := snd (increment_api_calls (current_month e) (api_call_log s))\<rparr>)"
proof -
  from assms(1) obtain d where "fst (fetch_games e s) = Some d" and "\<not> is_empty_object d"
    by (auto simp add: no_channel_tick_def fetch_games_fst
        split: response.splits option.splits)
  moreover from assms(1) have "channels_of None e = []"
    by (simp add: no_channel_tick_def channels_of_def)
  ultimately have "run_check None False None e s = (NoChannels, snd (fetch_games e s))"
    by (rule run_check_no_channels)
  with assms show ?thesis
    by (simp add: daily_check_def no_channel_tick_def fetch_games_snd)
qed

lemma run_ticks_no_channels:
  assumes "list_all (no_channel_tick today) es" and "last_daily_run s \<noteq> Some today"
  shows "run_ticks es s =
     (replicate (length es) RanFailed,
      s\<lparr>api_call_log :=
          foldl (\<lambda>f e. snd (increment_api_calls (current_month e) f)) (api_call_log s) es\<rparr>)"
  using assms
proof (induction es arbitrary: s)
  case Nil
  then show ?case by simp
next
  case (Cons e es)
  let ?s1 = "s\<lparr>api_call_log := snd (increment_api_calls (current_month e) (api_call_log s))\<rparr>"
  from Cons.prems have step: "daily_check e s = (RanFailed, ?s1)"
    by (simp add: daily_check_no_channels [of today])
  from Cons.prems have "list_all (no_channel_tick today) es"
    and "last_daily_run ?s1 \<noteq> Some today" by simp_all
  then have "run_ticks es ?s1 =
     (replicate (length es) RanFailed,
      ?s1\<lparr>api_call_log :=
          foldl (\<lambda>f e. snd (increment_api_calls (current_month e) f)) (api_call_log ?s1) es\<rparr>)"
    by (rule Cons.IH)
  with step show ?case by simp
qed

section \<open>Runs on the concrete inputs\<close>

lemma run_check_snapshot_A:
  "run_check (Some ''<@42>'') False (Some free_games_channel)
     (env_at morning (HttpResponse 200 (Some (catalog snapshot_A))) []) (load_posted None None)
   = (Changed [alpha] [beta], state_after_A)"
  by (simp add: example_defs code_defs Let_def)

lemma run_check_snapshot_B:
  "run_check None False None
     (env_at next_day_tick (HttpResponse 200 (Some (catalog snapshot_B))) [home_guild]) state_after_A
   = (Changed [beta] [alpha], state_after_B)"
  by (simp add: example_defs code_defs Let_def)

lemma home_guild_has_channel:
  "channels_of None (env_at t r [home_guild]) = [free_games_channel]"
  by (simp add: example_defs code_defs)

lemma bare_guild_has_no_channel:
  "get_free_game_channels (guilds (env_at t r [bare_guild])) = []"
  by (simp add: example_defs code_defs)

section \<open>The daily task runs once a day (C1)\<close>

text \<open>
  C1. On a day whose date is not the stored \<^verbatim>\<open>last_daily_run\<close>, at or after 17:01, the
  task calls \<^verbatim>\<open>run_check\<close>; the claim says that after a call that found the games
  changed or unchanged the date is today's, so that no later tick of that day calls it
  again. The code sets the date on the changed branch only
  (\<open>daily_check_changed_marks_today\<close>, \<open>daily_check_not_due\<close>). The return of line 214
  leaves it as it was (\<open>daily_check_unchanged_leaves_marker\<close>): with the stored games
  equal to the catalog's, the ticks of 17:01 and of 17:16 of one day both call
  \<^verbatim>\<open>run_check\<close>, both print the next-check line, the counter of API calls goes from 3
  to 5 and the date stays yesterday's.
\<close>

theorem unchanged_daily_check_runs_again:
  "run_ticks
     [env_at first_tick (HttpResponse 200 (Some (catalog snapshot_A))) [home_guild],
      env_at second_tick (HttpResponse 200 (Some (catalog snapshot_A))) [home_guild]]
     state_yesterday
   = ([RanOk, RanOk],
      state_yesterday\<lparr>api_call_log := Some \<lparr>count = 5, month = ''2024-10''\<rparr>\<rparr>) \<and>
   date_of first_tick = 20000 \<and> date_of second_tick = 20000 \<and>
   last_daily_run state_yesterday = Some 19999"
  by (simp add: example_defs code_defs Let_def)

section \<open>Current and upcoming titles stay apart (C2)\<close>

text \<open>
  C2. After a call of \<^verbatim>\<open>run_check\<close> that reaches the changed branch, no title is both
  in the stored current list and in the stored upcoming list, in memory and in the file
  just written, and the file written by \<^verbatim>\<open>save_posted\<close> from any state \<open>t\<close> has no
  common title either. The stored upcoming list is the old one without the entries whose
  title is a new current title, followed by the announced upcoming games; these are the
  fetched upcoming games whose title is neither a new current title nor the title of a
  retained entry.
\<close>

theorem changed_keeps_current_and_upcoming_apart:
  assumes "run_check cm force ic e s = (Changed ac au, s')"
  shows "title_set (posted_games s') \<inter> title_set (posted_upcoming s') = {} \<and>
         (\<exists>f. posted_file s' = Some f \<and> current f = posted_games s' \<and>
              upcoming f = posted_upcoming s' \<and>
              title_set (current f) \<inter> title_set (upcoming f) = {}) \<and>
         (\<exists>f. posted_file (save_posted t) = Some f \<and>
              title_set (current f) \<inter> title_set (upcoming f) = {}) \<and>
         posted_games s' = ac \<and>
         posted_upcoming s' =
           filter (\<lambda>g. get g ''title'' \<notin> title_set ac) (posted_upcoming s) @ au \<and>
         (\<exists>b. fst (fetch_games e s) = Some b \<and>
              au = filter (\<lambda>g. get g ''title'' \<notin> title_set ac \<and>
                     get g ''title'' \<notin>
                       title_set (filter (\<lambda>g. get g ''title'' \<notin> title_set ac)
                                    (posted_upcoming s)))
                     (nextGames (snapshot_of b)))"
proof -
  from assms obtain b where b: "fst (fetch_games e s) = Some b"
    and ac': "ac = currentGames (snapshot_of b)"
    and au': "au = new_upcoming_of (snapshot_of b) s"
    and s'': "s' = save_posted ((snd (fetch_games e s))
               \<lparr>posted_games := currentGames (snapshot_of b),
                posted_upcoming :=
                  kept_upcoming (snapshot_of b) s @ new_upcoming_of (snapshot_of b) s,
                last_daily_run := Some (date_of (now e))\<rparr>)"
    by (auto simp add: run_check_Changed_iff)
  define d where "d = snapshot_of b"
  note ac = ac' [folded d_def] and au = au' [folded d_def] and s' = s'' [folded d_def]
  have pg: "posted_games s' = currentGames d"
    and pu: "posted_upcoming s' = kept_upcoming d s @ new_upcoming_of d s"
    by (simp_all add: s' save_posted_fields)
  have apart: "title_set (posted_games s') \<inter> title_set (posted_upcoming s') = {}"
    using kept_upcoming_disjoint [of d s] new_upcoming_disjoint [of d s]
    by (simp add: pg pu title_set_append Int_Un_distrib)
  have same: "filter (\<lambda>g. get g ''title'' \<notin> title_set (posted_games s')) (posted_upcoming s')
      = posted_upcoming s'"
    using apart by (auto simp add: filter_id_conv title_set_def)
  have written: "posted_file s' =
      Some \<lparr>current = posted_games s', upcoming = posted_upcoming s',
            last_daily_run_json = last_daily_run s'\<rparr>"
    using same by (simp add: s' save_posted_file save_posted_fields)
  have any: "\<exists>f. posted_file (save_posted t) = Some f \<and>
              title_set (current f) \<inter> title_set (upcoming f) = {}"
    by (simp add: save_posted_file title_set_filter_disjoint)
  show ?thesis
    using apart written any b
    by (simp add: pg pu ac au kept_upcoming_def new_upcoming_of_def d_def)
qed

text \<open>
  The theorem at the run on snapshot B from the state left by snapshot A: Beta leaves the
  upcoming list as it becomes current.
\<close>

theorem changed_keeps_current_and_upcoming_apart_witness:
  "run_check None False None
     (env_at next_day_tick (HttpResponse 200 (Some (catalog snapshot_B))) [home_guild]) state_after_A
   = (Changed [beta] [alpha], state_after_B) \<and>
   title_set (posted_games state_after_B) \<inter> title_set (posted_upcoming state_after_B) = {} \<and>
   posted_upcoming state_after_B =
     filter (\<lambda>g. get g ''title'' \<notin> title_set [beta]) (posted_upcoming state_after_A) @ [alpha]"
proof -
  note th = changed_keeps_current_and_upcoming_apart
      [OF run_check_snapshot_B, where t = state_after_A]
  from th have a: "title_set (posted_games state_after_B) \<inter>
      title_set (posted_upcoming state_after_B) = {}"
    by (rule conjunct1)
  from th have b: "posted_upcoming state_after_B =
     filter (\<lambda>g. get g ''title'' \<notin> title_set [beta]) (posted_upcoming state_after_A) @ [alpha]"
    by blast
  from run_check_snapshot_B a b show ?thesis by blast
qed

section \<open>The same titles: nothing is written (C3)\<close>

text \<open>
  C3, as the code has it. Let the stored current games be those of a snapshot \<open>S1\<close>,
  whatever else the state holds, and let a call of \<^verbatim>\<open>run_check\<close> that is not forced
  fetch a snapshot \<open>S2\<close> whose current games have the same set of titles. The state
  file, the stored current and upcoming lists and \<^verbatim>\<open>last_daily_run\<close> are then what they
  were before the call. Where there is a channel to post to, the call returns from the
  unchanged branch (line 214); where there is none, it returns \<^verbatim>\<open>False\<close> from line 203.
\<close>

theorem same_titles_writes_nothing:
  assumes "net e = HttpResponse 200 (Some (catalog S2))"
    and "posted_games s = currentGames S1"
    and "title_set (currentGames S2) = title_set (currentGames S1)"
  shows "(channels_of ic e \<noteq> [] \<longrightarrow>
            (\<exists>armed. fst (run_check cm False ic e s) = Unchanged armed)) \<and>
         (channels_of ic e = [] \<longrightarrow> fst (run_check cm False ic e s) = NoChannels) \<and>
         posted_file (snd (run_check cm False ic e s)) = posted_file s \<and>
         posted_games (snd (run_check cm False ic e s)) = posted_games s \<and>
         posted_upcoming (snd (run_check cm False ic e s)) = posted_upcoming s \<and>
         last_daily_run (snd (run_check cm False ic e s)) = last_daily_run s"
proof -
  from assms(2,3)
  have same: "are_games_same (currentGames (snapshot_of (catalog S2))) (posted_games s)"
    by (simp add: are_games_same_def snapshot_of_catalog)
  have f: "fst (fetch_games e s) = Some (catalog S2)"
    using assms(1) by (rule fetch_games_ok)
  show ?thesis
  proof (cases "channels_of ic e = []")
    case True
    with f show ?thesis
      by (simp add: run_check_no_channels catalog_not_empty fetch_games_frame)
  next
    case False
    with f same show ?thesis
      by (auto simp add: run_check_unchanged [where d = "catalog S2"] catalog_not_empty
          fetch_games_frame split: option.splits)
  qed
qed

text \<open>
  The theorem at a state that holds the games of snapshot A and has no state file, and
  the daily task's fetch of the same title with a new description: the games are found
  unchanged and there is still no file and no date.
\<close>

theorem same_titles_writes_nothing_witness:
  "posted_games state_unsaved = currentGames snapshot_A \<and>
   title_set (currentGames snapshot_A_reworded) = title_set (currentGames snapshot_A) \<and>
   currentGames snapshot_A_reworded \<noteq> currentGames snapshot_A \<and>
   channels_of None (env_at first_tick (HttpResponse 200 (Some (catalog snapshot_A_reworded)))
     [home_guild]) \<noteq> [] \<and>
   (\<exists>armed. fst (run_check None False None
       (env_at first_tick (HttpResponse 200 (Some (catalog snapshot_A_reworded))) [home_guild])
       state_unsaved) = Unchanged armed) \<and>
   posted_file (snd (run_check None False None
       (env_at first_tick (HttpResponse 200 (Some (catalog snapshot_A_reworded))) [home_guild])
       state_unsaved)) = None \<and>
   posted_games (snd (run_check None False None
       (env_at first_tick (HttpResponse 200 (Some (catalog snapshot_A_reworded))) [home_guild])
       state_unsaved)) = [alpha] \<and>
   last_daily_run (snd (run_check None False None
       (env_at first_tick (HttpResponse 200 (Some (catalog snapshot_A_reworded))) [home_guild])
       state_unsaved)) = None"
proof -
  have p: "posted_games state_unsaved = currentGames snapshot_A"
    by (simp add: state_unsaved_def snapshot_A_def)
  have t: "title_set (currentGames snapshot_A_reworded) = title_set (currentGames snapshot_A)"
    by (simp add: example_defs title_set_def get_def)
  have n: "currentGames snapshot_A_reworded \<noteq> currentGames snapshot_A"
    by (simp add: example_defs)
  have c: "channels_of None
      (env_at first_tick (HttpResponse 200 (Some (catalog snapshot_A_reworded))) [home_guild])
      \<noteq> []"
    by (simp add: home_guild_has_channel)
  have n2: "net (env_at first_tick (HttpResponse 200 (Some (catalog snapshot_A_reworded)))
      [home_guild]) = HttpResponse 200 (Some (catalog snapshot_A_reworded))"
    by (simp add: env_at_def)
  have v: "posted_games state_unsaved = [alpha]" "last_daily_run state_unsaved = None"
    "posted_file state_unsaved = None"
    by (simp_all add: state_unsaved_def)
  show ?thesis
    using same_titles_writes_nothing [OF n2 p t, of None None] p t n c v
    by simp
qed

text \<open>
  The claim as written fails. Snapshot A is committed by the owner's check, and the daily
  task then fetches the same title in a guild whose only channel is \<^verbatim>\<open>general\<close>: the
  call does not return from the unchanged branch, it fails at line 203.
\<close>

theorem same_titles_without_a_channel_is_a_failure:
  "run_check (Some ''<@42>'') False (Some free_games_channel)
     (env_at morning (HttpResponse 200 (Some (catalog snapshot_A))) []) (load_posted None None)
   = (Changed [alpha] [beta], state_after_A) \<and>
   title_set (currentGames snapshot_A_reworded) = title_set (currentGames snapshot_A) \<and>
   fst (run_check None False None
     (env_at first_tick (HttpResponse 200 (Some (catalog snapshot_A_reworded))) [bare_guild])
     state_after_A) = NoChannels \<and>
   \<not> returned (fst (run_check None False None
     (env_at first_tick (HttpResponse 200 (Some (catalog snapshot_A_reworded))) [bare_guild])
     state_after_A))"
  by (simp add: example_defs code_defs Let_def)

section \<open>Forcing twice (C4)\<close>

text \<open>
  C4. Two forced calls of \<^verbatim>\<open>run_check\<close> in succession, the catalog answering both with
  the same snapshot, both return from the changed branch with the snapshot's current
  games as the announced current games, and the second announces no upcoming game.
\<close>

theorem forced_twice_announces_no_upcoming:
  assumes "net e1 = HttpResponse 200 (Some (catalog d))" and "net e2 = net e1"
    and "channels_of ic e1 \<noteq> []" and "channels_of ic e2 \<noteq> []"
    and "run_check cm True ic e1 s = (o1, s1)"
    and "run_check cm True ic e2 s1 = (o2, s2)"
  shows "(\<exists>au. o1 = Changed (currentGames d) au) \<and> o2 = Changed (currentGames d) []"
proof -
  have f1: "fst (fetch_games e1 s) = Some (catalog d)"
    and f2: "fst (fetch_games e2 s1) = Some (catalog d)"
    using assms(1,2) by (simp_all add: fetch_games_ok)
  from assms(5) have o1: "o1 = Changed (currentGames d) (new_upcoming_of d s)"
    and s1: "posted_upcoming s1 = kept_upcoming d s @ new_upcoming_of d s"
    using run_check_changed [OF f1 catalog_not_empty assms(3), of True cm]
    by (auto simp add: save_posted_fields snapshot_of_catalog)
  from assms(6) have "o2 = Changed (currentGames d) (new_upcoming_of d s1)"
    using run_check_changed [OF f2 catalog_not_empty assms(4), of True cm]
    by (auto simp add: snapshot_of_catalog)
  with o1 new_upcoming_second_empty [OF s1] show ?thesis by simp
qed

text \<open>The theorem at two forced calls on snapshot A, from the empty state.\<close>

theorem forced_twice_announces_no_upcoming_witness:
  "fst (run_check (Some ''<@42>'') True (Some free_games_channel)
          (env_at morning (HttpResponse 200 (Some (catalog snapshot_A))) []) (load_posted None None))
     = Changed [alpha] [beta] \<and>
   fst (run_check (Some ''<@42>'') True (Some free_games_channel)
          (env_at first_tick (HttpResponse 200 (Some (catalog snapshot_A))) [])
          (snd (run_check (Some ''<@42>'') True (Some free_games_channel)
             (env_at morning (HttpResponse 200 (Some (catalog snapshot_A))) [])
             (load_posted None None))))
     = Changed [alpha] []"
proof -
  let ?e1 = "env_at morning (HttpResponse 200 (Some (catalog snapshot_A))) []"
  let ?e2 = "env_at first_tick (HttpResponse 200 (Some (catalog snapshot_A))) []"
  let ?r1 = "run_check (Some ''<@42>'') True (Some free_games_channel) ?e1
               (load_posted None None)"
  let ?r2 = "run_check (Some ''<@42>'') True (Some free_games_channel) ?e2 (snd ?r1)"
  have n1: "net ?e1 = HttpResponse 200 (Some (catalog snapshot_A))" and n2: "net ?e2 = net ?e1"
    by (simp_all add: env_at_def)
  have c1: "channels_of (Some free_games_channel) ?e1 \<noteq> []"
    and c2: "channels_of (Some free_games_channel) ?e2 \<noteq> []"
    by (simp_all add: channels_of_def)
  have r1: "?r1 = (fst ?r1, snd ?r1)" and r2: "?r2 = (fst ?r2, snd ?r2)"
    by simp_all
  have first: "fst ?r1 = Changed [alpha] [beta]"
    by (simp add: example_defs code_defs Let_def)
  from forced_twice_announces_no_upcoming [OF n1 n2 c1 c2 r1 r2] first
  show ?thesis by (simp add: snapshot_A_def)
qed

section \<open>A failed fetch changes nothing (C5)\<close>

lemma run_check_message_only:
  "run_check None False None
     (env_at first_tick (HttpResponse 200 (Some message_only)) [home_guild]) state_yesterday
   = (Changed [] [],
      \<lparr>posted_games = [], posted_upcoming = [beta], last_daily_run = Some 20000,
       pending_confirmations = Map.empty,
       posted_file = Some \<lparr>current = [], upcoming = [beta],
                           last_daily_run_json = Some 20000\<rparr>,
       api_call_log = Some \<lparr>count = 4, month = ''2024-10''\<rparr>\<rparr>)"
  by (simp add: example_defs code_defs Let_def)

text \<open>
  C5, as the code has it. When the request raises, times out, is answered with a status
  other than 200, with a body that does not decode or with the empty object,
  \<^verbatim>\<open>run_check\<close> returns \<^verbatim>\<open>False\<close> from line 194 with the stored current and upcoming
  lists, the state file, \<^verbatim>\<open>last_daily_run\<close> and the pending confirmations as they were;
  in all these cases but the last \<^verbatim>\<open>fetch_games\<close> returns \<^verbatim>\<open>None\<close>. A body that decodes
  to an object with a key is not taken for a failure, also when it lacks an array: the
  call does not return from line 194, a missing array is read as empty, and where there
  is a channel and the titles differ or the call is forced, the lists so read are
  stored and announced and the day is marked.
\<close>

theorem fetch_error_fails_and_mutates_nothing:
  "(net e = TransportError \<or> net e = Timeout \<or>
    (\<exists>status body. net e = HttpResponse status body \<and> status \<noteq> 200) \<or>
    net e = HttpResponse 200 None \<or>
    (\<exists>b. net e = HttpResponse 200 (Some b) \<and> is_empty_object b) \<longrightarrow>
      fst (run_check cm force ic e s) = FetchFailed \<and>
      \<not> returned (fst (run_check cm force ic e s)) \<and>
      posted_games (snd (run_check cm force ic e s)) = posted_games s \<and>
      posted_upcoming (snd (run_check cm force ic e s)) = posted_upcoming s \<and>
      posted_file (snd (run_check cm force ic e s)) = posted_file s \<and>
      last_daily_run (snd (run_check cm force ic e s)) = last_daily_run s \<and>
      pending_confirmations (snd (run_check cm force ic e s)) = pending_confirmations s) \<and>
   (net e = TransportError \<or> net e = Timeout \<or>
    (\<exists>status body. net e = HttpResponse status body \<and> status \<noteq> 200) \<or>
    net e = HttpResponse 200 None \<longrightarrow>
      fst (fetch_games e s) = None) \<and>
   (net e = HttpResponse 200 (Some d) \<and> \<not> is_empty_object d \<longrightarrow>
      fst (fetch_games e s) = Some d \<and>
      fst (run_check cm force ic e s) \<noteq> FetchFailed \<and>
      (channels_of ic e \<noteq> [] \<and>
       (force \<or> \<not> are_games_same (currentGames (snapshot_of d)) (posted_games s)) \<longrightarrow>
         fst (run_check cm force ic e s) =
           Changed (currentGames (snapshot_of d)) (new_upcoming_of (snapshot_of d) s) \<and>
         currentGames (snapshot_of d) = get_or (currentGames_key d) [] \<and>
         posted_games (snd (run_check cm force ic e s)) = currentGames (snapshot_of d) \<and>
         last_daily_run (snd (run_check cm force ic e s)) = Some (date_of (now e))))"
proof (intro conjI impI)
  assume h: "net e = TransportError \<or> net e = Timeout \<or>
    (\<exists>status body. net e = HttpResponse status body \<and> status \<noteq> 200) \<or>
    net e = HttpResponse 200 None \<or>
    (\<exists>b. net e = HttpResponse 200 (Some b) \<and> is_empty_object b)"
  then have "fst (fetch_games e s) = None \<or>
      (\<exists>b. fst (fetch_games e s) = Some b \<and> is_empty_object b)"
    by (auto simp add: fetch_games_fst)
  then have r: "run_check cm force ic e s = (FetchFailed, snd (fetch_games e s))"
    by (auto simp add: run_check_fetch_failed run_check_empty_object)
  show "fst (run_check cm force ic e s) = FetchFailed"
    and "\<not> returned (fst (run_check cm force ic e s))"
    and "posted_games (snd (run_check cm force ic e s)) = posted_games s"
    and "posted_upcoming (snd (run_check cm force ic e s)) = posted_upcoming s"
    and "posted_file (snd (run_check cm force ic e s)) = posted_file s"
    and "last_daily_run (snd (run_check cm force ic e s)) = last_daily_run s"
    and "pending_confirmations (snd (run_check cm force ic e s)) = pending_confirmations s"
    by (simp_all add: r fetch_games_frame)
next
  assume "net e = TransportError \<or> net e = Timeout \<or>
    (\<exists>status body. net e = HttpResponse status body \<and> status \<noteq> 200) \<or>
    net e = HttpResponse 200 None"
  then show "fst (fetch_games e s) = None"
    by (auto simp add: fetch_games_fst)
next
  assume h: "net e = HttpResponse 200 (Some d) \<and> \<not> is_empty_object d"
  then show f: "fst (fetch_games e s) = Some d"
    by (simp add: fetch_games_ok)
  show "fst (run_check cm force ic e s) \<noteq> FetchFailed"
  proof (cases "channels_of ic e = []")
    case True
    with f h show ?thesis by (simp add: run_check_no_channels)
  next
    case False
    show ?thesis
    proof (cases "are_games_same (currentGames (snapshot_of d)) (posted_games s) \<and> \<not> force")
      case True
      with f h False show ?thesis
        by (simp add: run_check_unchanged split: option.splits)
    next
      case False
      with f h \<open>channels_of ic e \<noteq> []\<close> show ?thesis
        by (auto simp add: run_check_changed)
    qed
  qed
next
  assume h: "net e = HttpResponse 200 (Some d) \<and> \<not> is_empty_object d"
    and c: "channels_of ic e \<noteq> [] \<and>
       (force \<or> \<not> are_games_same (currentGames (snapshot_of d)) (posted_games s))"
  from h have f: "fst (fetch_games e s) = Some d" by (simp add: fetch_games_ok)
  from h c have r: "run_check cm force ic e s =
     (Changed (currentGames (snapshot_of d)) (new_upcoming_of (snapshot_of d) s),
      save_posted ((snd (fetch_games e s))
        \<lparr>posted_games := currentGames (snapshot_of d),
         posted_upcoming :=
           kept_upcoming (snapshot_of d) s @ new_upcoming_of (snapshot_of d) s,
         last_daily_run := Some (date_of (now e))\<rparr>))"
    using run_check_changed [OF f, where ic = ic and force = force and cm = cm] by auto
  show "fst (run_check cm force ic e s) =
      Changed (currentGames (snapshot_of d)) (new_upcoming_of (snapshot_of d) s)"
    and "posted_games (snd (run_check cm force ic e s)) = currentGames (snapshot_of d)"
    and "last_daily_run (snd (run_check cm force ic e s)) = Some (date_of (now e))"
    by (simp_all add: r save_posted_fields)
  show "currentGames (snapshot_of d) = get_or (currentGames_key d) []"
    by (simp add: snapshot_of_def)
qed

text \<open>
  The theorem at a status 503 met by the daily task on the state of yesterday, which
  changes nothing, and at a status 200 with an object that holds a message only, which
  is stored as a catalog without games.
\<close>

theorem fetch_error_fails_and_mutates_nothing_witness:
  "fst (run_check None False None
          (env_at first_tick (HttpResponse 503 (Some (catalog snapshot_B))) [home_guild])
          state_yesterday) = FetchFailed \<and>
   posted_games (snd (run_check None False None
          (env_at first_tick (HttpResponse 503 (Some (catalog snapshot_B))) [home_guild])
          state_yesterday)) = [alpha] \<and>
   posted_upcoming (snd (run_check None False None
          (env_at first_tick (HttpResponse 503 (Some (catalog snapshot_B))) [home_guild])
          state_yesterday)) = [beta] \<and>
   last_daily_run (snd (run_check None False None
          (env_at first_tick (HttpResponse 503 (Some (catalog snapshot_B))) [home_guild])
          state_yesterday)) = Some 19999 \<and>
   \<not> is_empty_object message_only \<and>
   fst (run_check None False None
          (env_at first_tick (HttpResponse 200 (Some message_only)) [home_guild])
          state_yesterday) = Changed [] [] \<and>
   posted_games (snd (run_check None False None
          (env_at first_tick (HttpResponse 200 (Some message_only)) [home_guild])
          state_yesterday)) = [] \<and>
   last_daily_run (snd (run_check None False None
          (env_at first_tick (HttpResponse 200 (Some message_only)) [home_guild])
          state_yesterday)) = Some 20000"
proof -
  let ?e = "env_at first_tick (HttpResponse 503 (Some (catalog snapshot_B))) [home_guild]"
  let ?e' = "env_at first_tick (HttpResponse 200 (Some message_only)) [home_guild]"
  have h: "net ?e = TransportError \<or> net ?e = Timeout \<or>
           (\<exists>status body. net ?e = HttpResponse status body \<and> status \<noteq> 200) \<or>
           net ?e = HttpResponse 200 None \<or>
           (\<exists>b. net ?e = HttpResponse 200 (Some b) \<and> is_empty_object b)"
    by (simp add: env_at_def)
  have v: "posted_games state_yesterday = [alpha]" "posted_upcoming state_yesterday = [beta]"
    "last_daily_run state_yesterday = Some 19999"
    by (simp_all add: state_yesterday_def)
  have 1: "fst (run_check None False None ?e state_yesterday) = FetchFailed \<and>
      posted_games (snd (run_check None False None ?e state_yesterday)) = [alpha] \<and>
      posted_upcoming (snd (run_check None False None ?e state_yesterday)) = [beta] \<and>
      last_daily_run (snd (run_check None False None ?e state_yesterday)) = Some 19999"
    using fetch_error_fails_and_mutates_nothing
      [of ?e None False None state_yesterday message_only, THEN conjunct1, THEN mp, OF h] v
    by simp
  have m: "net ?e' = HttpResponse 200 (Some message_only) \<and> \<not> is_empty_object message_only"
    by (simp add: env_at_def message_only_def is_empty_object_def)
  have c: "channels_of None ?e' \<noteq> [] \<and>
      (False \<or> \<not> are_games_same (currentGames (snapshot_of message_only))
         (posted_games state_yesterday))"
    by (simp add: home_guild_has_channel v)
       (simp add: are_games_same_def title_set_def snapshot_of_def get_or_def
          message_only_def alpha_def get_def)
  have g: "currentGames (snapshot_of message_only) = []"
    "new_upcoming_of (snapshot_of message_only) state_yesterday = []"
    by (simp_all add: snapshot_of_def get_or_def message_only_def new_upcoming_of_def)
  have d: "date_of (now ?e') = 20000"
    by (simp add: env_at_def first_tick_def date_of_def)
  have 2: "fst (run_check None False None ?e' state_yesterday) = Changed [] [] \<and>
      posted_games (snd (run_check None False None ?e' state_yesterday)) = [] \<and>
      last_daily_run (snd (run_check None False None ?e' state_yesterday)) = Some 20000"
    using fetch_error_fails_and_mutates_nothing
      [of ?e' None False None state_yesterday message_only,
        THEN conjunct2, THEN conjunct2, THEN mp, OF m,
        THEN conjunct2, THEN conjunct2, THEN mp, OF c] g d
    by simp
  from 1 2 m show ?thesis by simp
qed

text \<open>
  The claim as written fails. The catalog answers the daily task with status 200 and an
  object that has a message and neither array, a malformed body: the run does not fail.
  It finds a catalog without games, announces it, empties the stored current list,
  rewrites the state file and marks the day.
\<close>

theorem body_without_arrays_is_taken_for_an_empty_catalog:
  "currentGames_key message_only = None \<and> nextGames_key message_only = None \<and>
   fst (run_check None False None
          (env_at first_tick (HttpResponse 200 (Some message_only)) [home_guild])
          state_yesterday) = Changed [] [] \<and>
   returned (fst (run_check None False None
          (env_at first_tick (HttpResponse 200 (Some message_only)) [home_guild])
          state_yesterday)) \<and>
   posted_games state_yesterday = [alpha] \<and>
   posted_games (snd (run_check None False None
          (env_at first_tick (HttpResponse 200 (Some message_only)) [home_guild])
          state_yesterday)) = [] \<and>
   posted_file state_yesterday =
     Some \<lparr>current = [alpha], upcoming = [beta], last_daily_run_json = Some 19999\<rparr> \<and>
   posted_file (snd (run_check None False None
          (env_at first_tick (HttpResponse 200 (Some message_only)) [home_guild])
          state_yesterday)) =
     Some \<lparr>current = [], upcoming = [beta], last_daily_run_json = Some 20000\<rparr> \<and>
   last_daily_run state_yesterday = Some 19999 \<and>
   last_daily_run (snd (run_check None False None
          (env_at first_tick (HttpResponse 200 (Some message_only)) [home_guild])
          state_yesterday)) = Some 20000"
  by (simp add: run_check_message_only)
     (simp add: state_yesterday_def message_only_def)

section \<open>The confirmation command (C6)\<close>

text \<open>
  C6, as the code has it. \<^verbatim>\<open>/confirm\<close> shows the games again and removes the user's
  pending confirmation exactly when there is one and the time is not past its expiry. In
  every other case it answers that nothing is pending and leaves the dictionary as it
  is: a confirmation that has expired stays until the user's next unchanged check
  overwrites it. A user has one pending confirmation at most, since arming stores the
  new expiry, one minute ahead, under the user's key and touches no other key.
\<close>

theorem confirm_slash_consumes_a_live_token_only:
  "(fst (confirm_slash r t s) = Redisplayed (posted_games s)) =
     (\<exists>expiry. pending_confirmations s r = Some expiry \<and> t \<le> expiry) \<and>
   (fst (confirm_slash r t s) = NoPending) =
     (\<not> (\<exists>expiry. pending_confirmations s r = Some expiry \<and> t \<le> expiry)) \<and>
   (fst (confirm_slash r t s) = Redisplayed (posted_games s) \<longrightarrow>
      snd (confirm_slash r t s) =
        s\<lparr>pending_confirmations := (pending_confirmations s)(r := None)\<rparr>) \<and>
   (fst (confirm_slash r t s) = NoPending \<longrightarrow> snd (confirm_slash r t s) = s) \<and>
   arm r t0 pc r = Some (t0 + timedelta_minutes 1) \<and>
   (r' \<noteq> r \<longrightarrow> arm r t0 pc r' = pc r')"
  by (auto simp add: confirm_slash_def arm_def split: option.splits)

text \<open>
  The theorem at the confirmation armed at 0: \<^verbatim>\<open>/confirm\<close> at 30 s shows the games and
  removes it, and \<^verbatim>\<open>/confirm\<close> at 31 s then finds nothing.
\<close>

theorem confirm_slash_consumes_a_live_token_only_witness:
  "pending_confirmations state_armed ''<@42>'' = Some 60000000 \<and>
   fst (confirm_slash ''<@42>'' 30000000 state_armed) = Redisplayed [alpha] \<and>
   pending_confirmations (snd (confirm_slash ''<@42>'' 30000000 state_armed)) ''<@42>'' = None \<and>
   fst (confirm_slash ''<@42>'' 31000000 (snd (confirm_slash ''<@42>'' 30000000 state_armed)))
     = NoPending"
proof -
  have p: "pending_confirmations state_armed ''<@42>'' = Some 60000000"
    using confirm_slash_consumes_a_live_token_only
      [of "''<@42>''" 0 state_armed 0 Map.empty "''<@42>''"]
    by (simp add: state_armed_def timedelta_minutes_def)
  have g: "posted_games state_armed = [alpha]"
    by (simp add: state_armed_def)
  have 1: "fst (confirm_slash ''<@42>'' 30000000 state_armed) = Redisplayed [alpha]"
    using confirm_slash_consumes_a_live_token_only
      [of "''<@42>''" 30000000 state_armed 0 Map.empty "''<@42>''"] p g
    by simp
  then have 2: "snd (confirm_slash ''<@42>'' 30000000 state_armed) =
      state_armed\<lparr>pending_confirmations :=
        (pending_confirmations state_armed)(''<@42>'' := None)\<rparr>"
    using confirm_slash_consumes_a_live_token_only
      [of "''<@42>''" 30000000 state_armed 0 Map.empty "''<@42>''"] g
    by simp
  have 3: "fst (confirm_slash ''<@42>'' 31000000
      (state_armed\<lparr>pending_confirmations :=
        (pending_confirmations state_armed)(''<@42>'' := None)\<rparr>)) = NoPending"
    using confirm_slash_consumes_a_live_token_only
      [of "''<@42>''" 31000000
        "state_armed\<lparr>pending_confirmations :=
          (pending_confirmations state_armed)(''<@42>'' := None)\<rparr>" 0 Map.empty "''<@42>''"]
    by simp
  from p 1 2 3 show ?thesis by simp
qed

text \<open>
  The claim as written fails: \<^verbatim>\<open>/confirm\<close> at 61 s, past the expiry at 60 s, answers that
  nothing is pending, and the expired confirmation is still in the dictionary.
\<close>

theorem stale_confirmation_is_not_deleted:
  "fst (confirm_slash ''<@42>'' 61000000 state_armed) = NoPending \<and>
   pending_confirmations (snd (confirm_slash ''<@42>'' 61000000 state_armed)) ''<@42>''
     = Some 60000000"
  by (simp add: confirm_slash_def state_armed_def arm_def timedelta_minutes_def)

section \<open>Games without a title (C7)\<close>

text \<open>
  C7, as the code has it. Only titles are compared: two pairs of lists with the same
  sets of titles get the same answer from \<^verbatim>\<open>are_games_same\<close>. A game without a title
  has the key \<^verbatim>\<open>None\<close>, the same for all such games, so two of them count as the same
  game. In a call that reaches the changed branch, every current game is stored, with or
  without a title; when a current game has no title, no upcoming game without a title
  is kept or announced; and when no current game lacks a title, a stored upcoming game
  without a title stays and keeps every fetched upcoming game without a title from being
  announced.
\<close>

theorem untitled_items_share_one_key:
  assumes "get g ''title'' = None" and "get h ''title'' = None"
    and "run_check cm force ic e s = (Changed ac au, s')"
  shows "are_games_same [g] [h] \<and>
         (title_set a = title_set a' \<and> title_set b = title_set b' \<longrightarrow>
            are_games_same a b = are_games_same a' b') \<and>
         posted_games s' = ac \<and>
         (g \<in> set ac \<longrightarrow> h \<notin> set (posted_upcoming s') \<and> h \<notin> set au) \<and>
         (h \<in> set (posted_upcoming s) \<and> None \<notin> title_set ac \<longrightarrow>
            h \<in> set (posted_upcoming s') \<and> g \<notin> set au)"
proof -
  from assms(3) obtain j where "ac = currentGames (snapshot_of j)"
    and "au = new_upcoming_of (snapshot_of j) s"
    and "posted_games s' = currentGames (snapshot_of j)"
    and "posted_upcoming s' =
      kept_upcoming (snapshot_of j) s @ new_upcoming_of (snapshot_of j) s"
    by (auto simp add: run_check_Changed_iff save_posted_fields)
  then obtain d where ac: "ac = currentGames d" and au: "au = new_upcoming_of d s"
    and pg: "posted_games s' = currentGames d"
    and pu: "posted_upcoming s' = kept_upcoming d s @ new_upcoming_of d s"
    by blast
  have 1: "are_games_same [g] [h]"
    using assms(1,2) by (simp add: are_games_same_def title_set_def)
  have 2: "title_set a = title_set a' \<and> title_set b = title_set b' \<longrightarrow>
            are_games_same a b = are_games_same a' b'"
    by (simp add: are_games_same_def)
  have 3: "g \<in> set ac \<longrightarrow> h \<notin> set (posted_upcoming s') \<and> h \<notin> set au"
  proof
    assume "g \<in> set ac"
    with assms(1) have "None \<in> title_set (currentGames d)"
      by (force simp add: ac title_set_def)
    with assms(2) show "h \<notin> set (posted_upcoming s') \<and> h \<notin> set au"
      by (simp add: pu au kept_upcoming_def new_upcoming_of_def)
  qed
  have 4: "h \<in> set (posted_upcoming s) \<and> None \<notin> title_set ac \<longrightarrow>
            h \<in> set (posted_upcoming s') \<and> g \<notin> set au"
  proof
    assume a: "h \<in> set (posted_upcoming s) \<and> None \<notin> title_set ac"
    with assms(2) have k: "h \<in> set (kept_upcoming d s)"
      by (simp add: kept_upcoming_def ac)
    then have "None \<in> title_set (kept_upcoming d s)"
      using assms(2) by (force simp add: title_set_def)
    with k assms(1) show "h \<in> set (posted_upcoming s') \<and> g \<notin> set au"
      by (simp add: pu au new_upcoming_of_def)
  qed
  from 1 2 3 4 show ?thesis by (simp add: pg ac)
qed

lemma run_check_snapshot_untitled:
  "run_check None False None
     (env_at first_tick (HttpResponse 200 (Some (catalog snapshot_untitled))) [home_guild])
     state_untitled_upcoming
   = (Changed [untitled_one] [],
      \<lparr>posted_games = [untitled_one], posted_upcoming = [], last_daily_run = Some 20000,
       pending_confirmations = Map.empty,
       posted_file = Some \<lparr>current = [untitled_one], upcoming = [],
                           last_daily_run_json = Some 20000\<rparr>,
       api_call_log = Some \<lparr>count = 4, month = ''2024-10''\<rparr>\<rparr>)"
  by (simp add: example_defs code_defs Let_def)

text \<open>
  The theorem at two games that have a description and no title: the one becomes
  current, and the other, upcoming both in the state and in the catalog, is gone.
\<close>

theorem untitled_items_share_one_key_witness:
  "get untitled_one ''title'' = None \<and> get untitled_two ''title'' = None \<and>
   untitled_one \<noteq> untitled_two \<and>
   are_games_same [untitled_one] [untitled_two] \<and>
   fst (run_check None False None
     (env_at first_tick (HttpResponse 200 (Some (catalog snapshot_untitled))) [home_guild])
     state_untitled_upcoming) = Changed [untitled_one] [] \<and>
   untitled_two \<notin> set (posted_upcoming (snd (run_check None False None
     (env_at first_tick (HttpResponse 200 (Some (catalog snapshot_untitled))) [home_guild])
     state_untitled_upcoming)))"
proof -
  have g: "get untitled_one ''title'' = None" and h: "get untitled_two ''title'' = None"
    and n: "untitled_one \<noteq> untitled_two"
    by (simp_all add: untitled_one_def untitled_two_def get_def)
  note th = untitled_items_share_one_key [OF g h run_check_snapshot_untitled]
  from th have 1: "are_games_same [untitled_one] [untitled_two]" by (rule conjunct1)
  from th have 2: "untitled_two \<notin> set (posted_upcoming
      \<lparr>posted_games = [untitled_one], posted_upcoming = [], last_daily_run = Some 20000,
       pending_confirmations = Map.empty,
       posted_file = Some \<lparr>current = [untitled_one], upcoming = [],
                           last_daily_run_json = Some 20000\<rparr>,
       api_call_log = Some \<lparr>count = 4, month = ''2024-10''\<rparr>\<rparr>)"
    by simp
  from g h n 1 2 show ?thesis by (simp add: run_check_snapshot_untitled)
qed

text \<open>
  The claim as written fails. The stored current game and the fetched one are two
  different games without a title, and the daily task finds the games unchanged; and
  with a current game without a title, the upcoming game without a title is dropped from
  the stored list and is not announced.
\<close>

theorem untitled_items_are_taken_for_one_game:
  "untitled_one \<noteq> untitled_two \<and>
   are_games_same [untitled_one] [untitled_two] \<and>
   fst (run_check None False None
     (env_at first_tick (HttpResponse 200 (Some (catalog snapshot_untitled))) [home_guild])
     state_untitled_current) = Unchanged False \<and>
   posted_upcoming state_untitled_upcoming = [untitled_two] \<and>
   nextGames snapshot_untitled = [untitled_two] \<and>
   fst (run_check None False None
     (env_at first_tick (HttpResponse 200 (Some (catalog snapshot_untitled))) [home_guild])
     state_untitled_upcoming) = Changed [untitled_one] [] \<and>
   posted_upcoming (snd (run_check None False None
     (env_at first_tick (HttpResponse 200 (Some (catalog snapshot_untitled))) [home_guild])
     state_untitled_upcoming)) = []"
  by (simp add: example_defs code_defs Let_def)

section \<open>The example of the two snapshots (C8)\<close>

text \<open>
  C8. From the empty state, the owner's check on snapshot A (current Alpha, upcoming
  Beta) announces Alpha as current and Beta as upcoming and stores them so; the daily
  task's run on snapshot B (current Beta, upcoming Alpha) then announces and stores Beta
  as current and Alpha as upcoming.
\<close>

theorem alpha_then_beta_example:
  "run_check (Some ''<@42>'') False (Some free_games_channel)
     (env_at morning (HttpResponse 200 (Some (catalog snapshot_A))) []) (load_posted None None)
   = (Changed [alpha] [beta], state_after_A) \<and>
   posted_games (load_posted None None) = [] \<and>
   posted_upcoming (load_posted None None) = [] \<and>
   posted_games state_after_A = [alpha] \<and> posted_upcoming state_after_A = [beta] \<and>
   run_check None False None
     (env_at next_day_tick (HttpResponse 200 (Some (catalog snapshot_B))) [home_guild]) state_after_A
   = (Changed [beta] [alpha], state_after_B) \<and>
   posted_games state_after_B = [beta] \<and> posted_upcoming state_after_B = [alpha]"
  by (simp add: run_check_snapshot_A run_check_snapshot_B)
     (simp add: state_after_A_def state_after_B_def load_posted_def)

section \<open>The counter of API calls (C9)\<close>

text \<open>
  C9. Whatever the network then does, \<^verbatim>\<open>fetch_games\<close> leaves the counter file with the
  current month and with the count 1 when the file was missing or held another month,
  and the old count plus one otherwise; and a call of \<^verbatim>\<open>run_check\<close> changes the file as
  its one call of \<^verbatim>\<open>fetch_games\<close> does.
\<close>

theorem every_fetch_attempt_is_counted:
  "api_call_log (snd (fetch_games e s)) =
     Some \<lparr>count = (case api_call_log s of
                      None \<Rightarrow> 1
                    | Some d \<Rightarrow> if month d \<noteq> current_month e then 1 else count d + 1),
           month = current_month e\<rparr> \<and>
   api_call_log (snd (run_check cm force ic e s)) = api_call_log (snd (fetch_games e s))"
  by (simp add: run_check_api_call_log fetch_games_snd increment_api_calls_def
      get_api_call_count_def Let_def split: option.splits)

section \<open>No channel to post to (C10)\<close>

text \<open>
  C10. When the fetch succeeds and no guild has a channel named \<^verbatim>\<open>free-games\<close>, the
  daily task's call of \<^verbatim>\<open>run_check\<close> returns \<^verbatim>\<open>False\<close> from line 203 and leaves the
  stored lists, the state file and \<^verbatim>\<open>last_daily_run\<close> as they were. So the task takes
  the run for failed: over any ticks \<open>es\<close> of one day at or after 17:01 that meet the
  same situation, every tick calls \<^verbatim>\<open>run_check\<close> and prints the will-retry line, and
  the counter of API calls is incremented once for each tick.
\<close>

theorem no_channel_run_fails_and_is_retried:
  assumes "net e = HttpResponse 200 (Some d)" and "\<not> is_empty_object d"
    and "get_free_game_channels (guilds e) = []"
    and "list_all (no_channel_tick today) es"
    and "last_daily_run s \<noteq> Some today"
  shows "fst (run_check None False None e s) = NoChannels \<and>
         \<not> returned (fst (run_check None False None e s)) \<and>
         posted_games (snd (run_check None False None e s)) = posted_games s \<and>
         posted_upcoming (snd (run_check None False None e s)) = posted_upcoming s \<and>
         last_daily_run (snd (run_check None False None e s)) = last_daily_run s \<and>
         posted_file (snd (run_check None False None e s)) = posted_file s \<and>
         run_ticks es s =
           (replicate (length es) RanFailed,
            s\<lparr>api_call_log :=
                foldl (\<lambda>f e. snd (increment_api_calls (current_month e) f))
                  (api_call_log s) es\<rparr>)"
proof -
  have "fst (fetch_games e s) = Some d" using assms(1) by (rule fetch_games_ok)
  moreover have "channels_of None e = []" using assms(3) by (simp add: channels_of_def)
  ultimately have "run_check None False None e s = (NoChannels, snd (fetch_games e s))"
    using assms(2) by (simp add: run_check_no_channels)
  then show ?thesis
    using run_ticks_no_channels [OF assms(4,5)] by (simp add: fetch_games_frame)
qed

text \<open>
  The theorem at the ticks of 17:01 and 17:16 of day 20000, in a guild whose only
  channel is \<^verbatim>\<open>general\<close>: both runs fail and the count goes from 3 to 5.
\<close>

theorem no_channel_run_fails_and_is_retried_witness:
  "list_all (no_channel_tick 20000)
     [env_at first_tick (HttpResponse 200 (Some (catalog snapshot_B))) [bare_guild],
      env_at second_tick (HttpResponse 200 (Some (catalog snapshot_B))) [bare_guild]] \<and>
   last_daily_run state_yesterday = Some 19999 \<and>
   fst (run_check None False None
          (env_at first_tick (HttpResponse 200 (Some (catalog snapshot_B))) [bare_guild])
          state_yesterday) = NoChannels \<and>
   run_ticks
     [env_at first_tick (HttpResponse 200 (Some (catalog snapshot_B))) [bare_guild],
      env_at second_tick (HttpResponse 200 (Some (catalog snapshot_B))) [bare_guild]]
     state_yesterday
   = ([RanFailed, RanFailed],
      state_yesterday\<lparr>api_call_log := Some \<lparr>count = 5, month = ''2024-10''\<rparr>\<rparr>)"
proof -
  let ?e1 = "env_at first_tick (HttpResponse 200 (Some (catalog snapshot_B))) [bare_guild]"
  let ?e2 = "env_at second_tick (HttpResponse 200 (Some (catalog snapshot_B))) [bare_guild]"
  have n: "net ?e1 = HttpResponse 200 (Some (catalog snapshot_B))"
    by (simp add: env_at_def)
  have c: "get_free_game_channels (guilds ?e1) = []"
    by (rule bare_guild_has_no_channel)
  have l: "list_all (no_channel_tick 20000) [?e1, ?e2]"
    by (simp add: no_channel_tick_def bare_guild_has_no_channel)
       (simp add: env_at_def first_tick_def second_tick_def date_of_def target_time_of_def
          catalog_not_empty)
  have d: "last_daily_run state_yesterday = Some 19999"
    by (simp add: state_yesterday_def)
  then have d': "last_daily_run state_yesterday \<noteq> Some 20000" by simp
  have a: "foldl (\<lambda>f e. snd (increment_api_calls (current_month e) f))
             (api_call_log state_yesterday) [?e1, ?e2]
           = Some \<lparr>count = 5, month = ''2024-10''\<rparr>"
    by (simp add: state_yesterday_def env_at_def increment_api_calls_def
        get_api_call_count_def Let_def)
  from no_channel_run_fails_and_is_retried [OF n catalog_not_empty c l d'] l d a
  show ?thesis by simp
qed

end
